theory Spec2Isabelle
  imports Main "HOL-Library.Word"
begin

section \<open>Data model of the auxiliary traffic shaper\<close>

text \<open>
  The development follows \<^verbatim>\<open>tapchannel/aux_traffic_shaper.go\<close>: the three entry points
  \<^verbatim>\<open>HandleTraffic\<close>, \<^verbatim>\<open>PaymentBandwidth\<close> and \<^verbatim>\<open>ProduceHtlcExtraData\<close> of
  \<^verbatim>\<open>AuxTrafficShaper\<close>. Go's \<^verbatim>\<open>uint64\<close> is \<open>64 word\<close>: \<open>*\<close> wraps modulo \<open>2 ^ 64\<close>,
  \<open>div\<close> is the unsigned truncating division and \<open>\<le>\<close> the unsigned order.
\<close>

type_synonym blob = "8 word list"          \<comment> \<open>\<^verbatim>\<open>tlv.Blob\<close>, a byte slice\<close>
type_synonym MilliSatoshi = "64 word"      \<comment> \<open>\<^verbatim>\<open>lnwire.MilliSatoshi\<close>, a \<^verbatim>\<open>uint64\<close>\<close>
type_synonym btc_amount = "64 word"        \<comment> \<open>\<^verbatim>\<open>btcutil.Amount\<close>, an \<^verbatim>\<open>int64\<close> of satoshis\<close>
type_synonym asset_id = "256 word"         \<comment> \<open>\<^verbatim>\<open>asset.ID\<close>, 32 bytes\<close>
type_synonym rfq_id = "256 word"           \<comment> \<open>\<^verbatim>\<open>rfqmsg.ID\<close>, 32 bytes\<close>
type_synonym scid = "64 word"              \<comment> \<open>\<^verbatim>\<open>rfqmsg.SerialisedScid\<close>, a \<^verbatim>\<open>uint64\<close>\<close>
type_synonym lib_error = string            \<comment> \<open>an error value produced by a codec\<close>

text \<open>An asset balance \<^verbatim>\<open>rfqmsg.AssetBalance\<close> is the pair of an asset identifier and a
  \<^verbatim>\<open>uint64\<close> amount; \<^verbatim>\<open>rfqmsg.NewAssetBalance id n\<close> is the pair \<open>(id, n)\<close>.\<close>

type_synonym AssetBalance = "asset_id \<times> 64 word"

text \<open>\<^verbatim>\<open>lnwire.CustomRecords\<close> is a Go map from \<^verbatim>\<open>uint64\<close> to byte slices, kept here as
  the list of its entries; the code only asks for its length and serialises it.\<close>

type_synonym CustomRecords = "(64 word \<times> blob) list"

record Commitment =
  LocalOutputs :: "AssetBalance list"

record Htlc =
  Amounts :: "AssetBalance list"
  RfqID :: "rfq_id option"

record SellAccept =
  BidPrice :: MilliSatoshi
  AssetID :: "asset_id option"     \<comment> \<open>a pointer in the source; \<open>None\<close> is \<^verbatim>\<open>nil\<close>\<close>

text \<open>
  Everything the three functions call outside their own file is a field of \<open>externals\<close>:
  the TLV codecs, the serialisation of custom records, the derivation of the short channel
  identifier from a quote identifier, the map of accepted sell quotes held by the RFQ
  manager, and the constants \<^verbatim>\<open>btcutil.MaxSatoshi\<close>, \<^verbatim>\<open>lnwire.NewMSatFromSatoshis\<close> and
  the package variable \<^verbatim>\<open>DefaultOnChainHtlcAmount\<close>
  (\<^verbatim>\<open>lnwallet.DustLimitForSize(input.UnknownWitnessSize)\<close>).
\<close>

record 'oc externals =
  DecodeOpenChannel :: "blob \<Rightarrow> lib_error + 'oc"
  DecodeCommitment :: "blob \<Rightarrow> lib_error + Commitment"
  DecodeHtlc :: "blob \<Rightarrow> lib_error + Htlc"
  Serialize :: "CustomRecords \<Rightarrow> lib_error + blob"
  Bytes :: "Htlc \<Rightarrow> blob"
  Scid :: "rfq_id \<Rightarrow> scid"
  PeerAcceptedSellQuotes :: "scid \<Rightarrow> SellAccept option"
  MaxSatoshi :: btc_amount
  NewMSatFromSatoshis :: "btc_amount \<Rightarrow> MilliSatoshi"
  DefaultOnChainHtlcAmount :: btc_amount

text \<open>The errors the three functions return: a codec error handed on as it is, or one of
  the messages built with \<^verbatim>\<open>fmt.Errorf\<close>.\<close>

datatype error =
    CodecError lib_error
  | NoBlobAvailable
  | ErrorDecodingCommitment lib_error
  | ErrorDecodingHtlc lib_error
  | ErrorSerializingHtlc lib_error
  | NoAcceptedQuote rfq_id scid
  | NoRfqID
  | QuoteHasNoAssetID

text \<open>A Go call either returns its results or panics at run time.\<close>

datatype 'a outcome = Panics | Returns 'a

section \<open>Sums of asset balances\<close>

text \<open>Modelled from the spec: \<^verbatim>\<open>cmsg.OutputSum\<close> is not part of the file; the data model
  says that the local available balance is the sum of the asset-unit values across all local
  outputs. The values are \<^verbatim>\<open>uint64\<close>, so the sum is taken in \<open>64 word\<close>.\<close>

definition OutputSum :: "AssetBalance list \<Rightarrow> 64 word" where
  "OutputSum outputs = sum_list (map snd outputs)"

text \<open>Modelled from the spec: the method \<^verbatim>\<open>Sum\<close> of the HTLC amount record is not part of
  the file; the data model says that \<^verbatim>\<open>Sum()\<close> is the total of asset units requested over
  the (asset identifier, amount) pairs.\<close>

definition Sum_amounts :: "AssetBalance list \<Rightarrow> 64 word" where
  "Sum_amounts balances = sum_list (map snd balances)"

section \<open>HandleTraffic\<close>

definition HandleTraffic :: "'oc externals \<Rightarrow> blob option \<Rightarrow> bool \<times> error option" where
  "HandleTraffic ext fundingBlob =
     (case fundingBlob of
        None \<Rightarrow> (False, None)
      | Some blob \<Rightarrow>
          (case DecodeOpenChannel ext blob of
             Inl err \<Rightarrow> (False, Some (CodecError err))
           | Inr _ \<Rightarrow> (True, None)))"

section \<open>PaymentBandwidth\<close>

definition PaymentBandwidth ::
  "'oc externals \<Rightarrow> blob option \<Rightarrow> blob option \<Rightarrow> MilliSatoshi \<times> error option" where
  "PaymentBandwidth ext htlcBlob commitmentBlob =
     (case (commitmentBlob, htlcBlob) of
        (Some commitmentBytes, Some htlcBytes) \<Rightarrow>
          (case DecodeCommitment ext commitmentBytes of
             Inl err \<Rightarrow> (0, Some (ErrorDecodingCommitment err))
           | Inr commitment \<Rightarrow>
               (case DecodeHtlc ext htlcBytes of
                  Inl err \<Rightarrow> (0, Some (ErrorDecodingHtlc err))
                | Inr htlc \<Rightarrow>
                    (let localBalance = OutputSum (LocalOutputs commitment);
                         htlcAssetAmount = Sum_amounts (Amounts htlc)
                     in if htlcAssetAmount \<noteq> 0 \<and> htlcAssetAmount \<le> localBalance
                        then (NewMSatFromSatoshis ext (MaxSatoshi ext), None)
                        else (case RfqID htlc of
                                None \<Rightarrow> (0, None)
                              | Some rfqID \<Rightarrow>
                                  (case PeerAcceptedSellQuotes ext (Scid ext rfqID) of
                                     None \<Rightarrow>
                                       (0, Some (NoAcceptedQuote rfqID (Scid ext rfqID)))
                                   | Some quote \<Rightarrow>
                                       (localBalance * BidPrice quote, None))))))
      | _ \<Rightarrow> (0, Some NoBlobAvailable))"

section \<open>ProduceHtlcExtraData\<close>

text \<open>Line 243: \<^verbatim>\<open>uint64(totalAmount*10/mSatPerAssetUnit) / 10\<close>, all in \<^verbatim>\<open>uint64\<close>.\<close>

definition numAssetUnits :: "MilliSatoshi \<Rightarrow> MilliSatoshi \<Rightarrow> 64 word" where
  "numAssetUnits totalAmount mSatPerAssetUnit =
     (totalAmount * 10 div mSatPerAssetUnit) div 10"

definition ProduceHtlcExtraData ::
  "'oc externals \<Rightarrow> MilliSatoshi \<Rightarrow> CustomRecords
     \<Rightarrow> (MilliSatoshi \<times> blob option \<times> error option) outcome" where
  "ProduceHtlcExtraData ext totalAmount htlcCustomRecords =
     (if length htlcCustomRecords = 0 then Returns (totalAmount, None, None)
      else
        (case Serialize ext htlcCustomRecords of
           Inl err \<Rightarrow> Returns (0, None, Some (ErrorSerializingHtlc err))
         | Inr htlcBlob \<Rightarrow>
             (case DecodeHtlc ext htlcBlob of
                Inl err \<Rightarrow> Returns (0, None, Some (ErrorDecodingHtlc err))
              | Inr htlc \<Rightarrow>
                  if Sum_amounts (Amounts htlc) > 0 then Returns (totalAmount, Some htlcBlob, None)
                  else
                    (case RfqID htlc of
                       None \<Rightarrow> Returns (0, None, Some NoRfqID)
                     | Some rfqID \<Rightarrow>
                         (case PeerAcceptedSellQuotes ext (Scid ext rfqID) of
                            None \<Rightarrow>
                              Returns (0, None, Some (NoAcceptedQuote rfqID (Scid ext rfqID)))
                          | Some quote \<Rightarrow>
                              if BidPrice quote = 0 then Panics
                              else
                                (case AssetID quote of
                                   None \<Rightarrow> Returns (0, None, Some QuoteHasNoAssetID)
                                 | Some assetID \<Rightarrow>
                                     Returns
                                       (NewMSatFromSatoshis ext (DefaultOnChainHtlcAmount ext),
                                        Some (Bytes ext
                                          (htlc\<lparr>Amounts :=
                                             [(assetID, numAssetUnits totalAmount (BidPrice quote))]\<rparr>)),
                                        None)))))))"

section \<open>A concrete environment\<close>

text \<open>
  An environment to run the functions on. The blob \<open>[n]\<close> decodes to the \<open>n\<close>-th entry of
  a table of commitments or of HTLCs and every other blob fails to decode; custom records
  are serialised by concatenating their values; an HTLC is written back as the low bytes of
  its amounts; the channel identifier is the low 64 bits of the quote identifier. The
  constants are those of the libraries: 21 million coins of \<open>10 ^ 8\<close> satoshis, 1000
  millisatoshis per satoshi, and a dust limit of 354 satoshis.
\<close>

definition decode_table :: "'a list \<Rightarrow> blob \<Rightarrow> lib_error + 'a" where
  "decode_table table b =
     (case b of
        [n] \<Rightarrow> if unat n < length table then Inr (table ! unat n) else Inl ''unknown record''
      | _ \<Rightarrow> Inl ''malformed record'')"

definition example_externals ::
  "Commitment list \<Rightarrow> Htlc list \<Rightarrow> (scid \<Rightarrow> SellAccept option) \<Rightarrow> unit externals" where
  "example_externals commitments htlcs quotes =
     \<lparr>DecodeOpenChannel = decode_table [()],
      DecodeCommitment = decode_table commitments,
      DecodeHtlc = decode_table htlcs,
      Serialize = (\<lambda>records. Inr (concat (map snd records))),
      Bytes = (\<lambda>htlc. map (\<lambda>balance. ucast (snd balance)) (Amounts htlc)),
      Scid = ucast,
      PeerAcceptedSellQuotes = quotes,
      MaxSatoshi = 2100000000000000,
      NewMSatFromSatoshis = (\<lambda>sat. sat * 1000),
      DefaultOnChainHtlcAmount = 354\<rparr>"

text \<open>Two commitments, with local balances of 500 and of \<open>2 ^ 32\<close> units, and five HTLCs:
  priced without a quote, empty, unpriced under the quotes 7 and 8, and priced under the
  quote 8.\<close>

definition example_commitments :: "Commitment list" where
  "example_commitments =
     [\<lparr>LocalOutputs = [(1, 300), (1, 200)]\<rparr>,
      \<lparr>LocalOutputs = [(1, 4294967296)]\<rparr>]"

definition example_htlcs :: "Htlc list" where
  "example_htlcs =
     [\<lparr>Amounts = [(1, 200)], RfqID = None\<rparr>,
      \<lparr>Amounts = [], RfqID = None\<rparr>,
      \<lparr>Amounts = [], RfqID = Some 7\<rparr>,
      \<lparr>Amounts = [], RfqID = Some 8\<rparr>,
      \<lparr>Amounts = [(1, 200)], RfqID = Some 8\<rparr>]"

text \<open>One accepted quote, under the channel identifier 7, for asset 1 at the given price.\<close>

definition example_quotes :: "MilliSatoshi \<Rightarrow> scid \<Rightarrow> SellAccept option" where
  "example_quotes bidPrice s =
     (if s = 7 then Some \<lparr>BidPrice = bidPrice, AssetID = Some 1\<rparr> else None)"

definition example_shaper :: "MilliSatoshi \<Rightarrow> unit externals" where
  "example_shaper bidPrice =
     example_externals example_commitments example_htlcs (example_quotes bidPrice)"

lemmas example_defs = example_shaper_def example_externals_def decode_table_def
  example_commitments_def example_htlcs_def example_quotes_def

text \<open>Follows the spec's words, to compare with \<open>numAssetUnits\<close>: the quotient
  \<open>totalNativeAmount / bidPrice\<close> rounded to the nearest tenth, then truncated to a whole
  number of units. On naturals, the nearest number of tenths is
  \<open>(10 * total + bidPrice div 2) div bidPrice\<close>.\<close>

definition spec_numUnits :: "nat \<Rightarrow> nat \<Rightarrow> nat" where
  "spec_numUnits totalNativeAmount bidPrice =
     ((10 * totalNativeAmount + bidPrice div 2) div bidPrice) div 10"

section \<open>Classification\<close>

text \<open>
  C5. \<open>HandleTraffic\<close> is a total case analysis on its optional funding blob: an absent
  blob gives \<open>(False, no error)\<close>; a blob that decodes as an open-channel record gives
  \<open>(True, no error)\<close>; a blob that fails to decode gives \<open>(False, the error)\<close>, and in no case
  is \<open>True\<close> returned together with an error. The result is a function of the blob and the
  decoder alone.
\<close>

theorem HandleTraffic_cases:
  "HandleTraffic ext None = (False, None)
   \<and> (\<forall>blob oc. DecodeOpenChannel ext blob = Inr oc
        \<longrightarrow> HandleTraffic ext (Some blob) = (True, None))
   \<and> (\<forall>blob err. DecodeOpenChannel ext blob = Inl err
        \<longrightarrow> HandleTraffic ext (Some blob) = (False, Some (CodecError err)))
   \<and> (\<forall>fundingBlob err. HandleTraffic ext fundingBlob \<noteq> (True, Some err))"
  by (auto simp: HandleTraffic_def split: option.splits sum.splits)

theorem HandleTraffic_cases_witness:
  "HandleTraffic (example_shaper 2) None = (False, None)
   \<and> DecodeOpenChannel (example_shaper 2) [0] = Inr ()
   \<and> HandleTraffic (example_shaper 2) (Some [0]) = (True, None)
   \<and> DecodeOpenChannel (example_shaper 2) [] = Inl ''malformed record''
   \<and> HandleTraffic (example_shaper 2) (Some []) = (False, Some (CodecError ''malformed record''))"
proof -
  have ok: "DecodeOpenChannel (example_shaper 2) [0] = Inr ()"
    by (simp add: example_defs)
  have bad: "DecodeOpenChannel (example_shaper 2) [] = Inl ''malformed record''"
    by (simp add: example_defs)
  from HandleTraffic_cases [of "example_shaper 2"] ok bad show ?thesis
    by blast
qed

section \<open>Bandwidth estimation\<close>

text \<open>
  C3, as the code has it. When both blobs decode, the asset amount of the HTLC is not zero
  and it is at most the local balance, \<open>PaymentBandwidth\<close> succeeds with the sentinel
  \<^verbatim>\<open>lnwire.NewMSatFromSatoshis(btcutil.MaxSatoshi)\<close>: with the constants of the libraries,
  2100000000000000 satoshis at 1000 millisatoshis each, that is 2100000000000000000
  millisatoshis, the whole supply of the native currency. Nothing is assumed about the
  quote identifier of the HTLC or about the accepted quotes: the result is the same whether
  an identifier is present or not and whether a quote is found or not.
\<close>

theorem PaymentBandwidth_already_priced:
  assumes "DecodeCommitment ext commitmentBytes = Inr commitment"
    and "DecodeHtlc ext htlcBytes = Inr htlc"
    and "Sum_amounts (Amounts htlc) \<noteq> 0"
    and "Sum_amounts (Amounts htlc) \<le> OutputSum (LocalOutputs commitment)"
  shows "PaymentBandwidth ext (Some htlcBytes) (Some commitmentBytes)
           = (NewMSatFromSatoshis ext (MaxSatoshi ext), None)
         \<and> (MaxSatoshi ext = 2100000000000000
              \<and> NewMSatFromSatoshis ext (MaxSatoshi ext) = MaxSatoshi ext * 1000
            \<longrightarrow> PaymentBandwidth ext (Some htlcBytes) (Some commitmentBytes)
                  = (2100000000000000000, None))"
proof -
  have sentinel: "PaymentBandwidth ext (Some htlcBytes) (Some commitmentBytes)
                    = (NewMSatFromSatoshis ext (MaxSatoshi ext), None)"
    using assms by (simp add: PaymentBandwidth_def Let_def)
  have "(2100000000000000 :: 64 word) * 1000 = 2100000000000000000"
    by simp
  with sentinel show ?thesis
    by auto
qed

text \<open>The HTLC \<open>[4]\<close> asks for 200 units and names the quote 8, which nobody accepted; the
  commitment \<open>[0]\<close> has 500 units.\<close>

theorem PaymentBandwidth_already_priced_witness:
  "DecodeCommitment (example_shaper 2) [0] = Inr \<lparr>LocalOutputs = [(1, 300), (1, 200)]\<rparr>
   \<and> DecodeHtlc (example_shaper 2) [4] = Inr \<lparr>Amounts = [(1, 200)], RfqID = Some 8\<rparr>
   \<and> PeerAcceptedSellQuotes (example_shaper 2) (Scid (example_shaper 2) 8) = None
   \<and> Sum_amounts [(1, 200)] \<noteq> 0
   \<and> Sum_amounts [(1, 200)] \<le> OutputSum [(1, 300), (1, 200)]
   \<and> MaxSatoshi (example_shaper 2) = 2100000000000000
   \<and> NewMSatFromSatoshis (example_shaper 2) (MaxSatoshi (example_shaper 2))
       = MaxSatoshi (example_shaper 2) * 1000
   \<and> PaymentBandwidth (example_shaper 2) (Some [4]) (Some [0]) = (2100000000000000000, None)"
proof -
  have c: "DecodeCommitment (example_shaper 2) [0] = Inr \<lparr>LocalOutputs = [(1, 300), (1, 200)]\<rparr>"
    by (simp add: example_defs)
  have h: "DecodeHtlc (example_shaper 2) [4] = Inr \<lparr>Amounts = [(1, 200)], RfqID = Some 8\<rparr>"
    by (simp add: example_defs)
  have q: "PeerAcceptedSellQuotes (example_shaper 2) (Scid (example_shaper 2) 8) = None"
    by (simp add: example_defs)
  have nz: "Sum_amounts (Amounts \<lparr>Amounts = [(1, 200)], RfqID = Some 8\<rparr>) \<noteq> 0"
    by (simp add: Sum_amounts_def)
  have le: "Sum_amounts (Amounts \<lparr>Amounts = [(1, 200)], RfqID = Some 8\<rparr>)
              \<le> OutputSum (LocalOutputs \<lparr>LocalOutputs = [(1, 300), (1, 200)]\<rparr>)"
    by (simp add: Sum_amounts_def OutputSum_def)
  have m: "MaxSatoshi (example_shaper 2) = 2100000000000000"
    by (simp add: example_defs)
  have n: "NewMSatFromSatoshis (example_shaper 2) (MaxSatoshi (example_shaper 2))
             = MaxSatoshi (example_shaper 2) * 1000"
    by (simp add: example_defs)
  from PaymentBandwidth_already_priced [OF c h nz le] m n
  have "PaymentBandwidth (example_shaper 2) (Some [4]) (Some [0]) = (2100000000000000000, None)"
    by blast
  with c h q nz le m n show ?thesis
    by simp
qed

text \<open>
  C3, as the spec states it, fails: the sentinel is not the largest value of the
  native-unit type. For the HTLC \<open>[0]\<close>, which asks for 200 units and names no quote,
  against the commitment \<open>[0]\<close> of 500 units, \<open>PaymentBandwidth\<close> returns
  2100000000000000000, which is below the \<^verbatim>\<open>uint64\<close> maximum 18446744073709551615.
\<close>

theorem PaymentBandwidth_sentinel_below_maximum:
  "DecodeCommitment (example_shaper 2) [0] = Inr \<lparr>LocalOutputs = [(1, 300), (1, 200)]\<rparr>
   \<and> DecodeHtlc (example_shaper 2) [0] = Inr \<lparr>Amounts = [(1, 200)], RfqID = None\<rparr>
   \<and> Sum_amounts [(1, 200)] \<noteq> 0
   \<and> Sum_amounts [(1, 200)] \<le> OutputSum [(1, 300), (1, 200)]
   \<and> PaymentBandwidth (example_shaper 2) (Some [0]) (Some [0]) = (2100000000000000000, None)
   \<and> fst (PaymentBandwidth (example_shaper 2) (Some [0]) (Some [0])) \<noteq> 18446744073709551615
   \<and> unat (fst (PaymentBandwidth (example_shaper 2) (Some [0]) (Some [0]))) < 2 ^ 64 - 1
   \<and> unat (18446744073709551615 :: 64 word) = 2 ^ 64 - 1"
  by (simp add: PaymentBandwidth_def example_defs OutputSum_def Sum_amounts_def)

text \<open>
  C6. When both blobs decode, the already-priced branch does not apply (the asset amount
  of the HTLC is zero or exceeds the local balance) and the HTLC carries no quote
  identifier, \<open>PaymentBandwidth\<close> returns 0 and no error.
\<close>

theorem PaymentBandwidth_no_quote_identifier:
  assumes "DecodeCommitment ext commitmentBytes = Inr commitment"
    and "DecodeHtlc ext htlcBytes = Inr htlc"
    and "\<not> (Sum_amounts (Amounts htlc) \<noteq> 0
            \<and> Sum_amounts (Amounts htlc) \<le> OutputSum (LocalOutputs commitment))"
    and "RfqID htlc = None"
  shows "PaymentBandwidth ext (Some htlcBytes) (Some commitmentBytes) = (0, None)"
  using assms by (auto simp: PaymentBandwidth_def Let_def)

theorem PaymentBandwidth_no_quote_identifier_witness:
  "DecodeCommitment (example_shaper 2) [0] = Inr \<lparr>LocalOutputs = [(1, 300), (1, 200)]\<rparr>
   \<and> DecodeHtlc (example_shaper 2) [1] = Inr \<lparr>Amounts = [], RfqID = None\<rparr>
   \<and> Sum_amounts [] = 0
   \<and> PaymentBandwidth (example_shaper 2) (Some [1]) (Some [0]) = (0, None)"
proof -
  have c: "DecodeCommitment (example_shaper 2) [0] = Inr \<lparr>LocalOutputs = [(1, 300), (1, 200)]\<rparr>"
    by (simp add: example_defs)
  have h: "DecodeHtlc (example_shaper 2) [1] = Inr \<lparr>Amounts = [], RfqID = None\<rparr>"
    by (simp add: example_defs)
  have z: "Sum_amounts [] = 0"
    by (simp add: Sum_amounts_def)
  have np: "\<not> (Sum_amounts (Amounts \<lparr>Amounts = [], RfqID = None\<rparr>) \<noteq> 0
              \<and> Sum_amounts (Amounts \<lparr>Amounts = [], RfqID = None\<rparr>)
                  \<le> OutputSum (LocalOutputs \<lparr>LocalOutputs = [(1, 300), (1, 200)]\<rparr>))"
    using z by simp
  have r: "RfqID \<lparr>Amounts = [], RfqID = None\<rparr> = None"
    by simp
  from PaymentBandwidth_no_quote_identifier [OF c h np r] c h z show ?thesis
    by simp
qed

text \<open>
  C2, as the code has it. In the quote-found branch (both blobs decode, the asset amount of
  the HTLC is zero or exceeds the local balance, the quote identifier is present and its
  quote is found) \<open>PaymentBandwidth\<close> returns the product of the local balance and the bid
  price computed in \<^verbatim>\<open>uint64\<close>, with no error: the exact product whenever it is below
  \<open>2 ^ 64\<close>, and the product modulo \<open>2 ^ 64\<close> in every case. No overflow error exists.
\<close>

theorem PaymentBandwidth_quote_found:
  assumes "DecodeCommitment ext commitmentBytes = Inr commitment"
    and "DecodeHtlc ext htlcBytes = Inr htlc"
    and "\<not> (Sum_amounts (Amounts htlc) \<noteq> 0
            \<and> Sum_amounts (Amounts htlc) \<le> OutputSum (LocalOutputs commitment))"
    and "RfqID htlc = Some rfqID"
    and "PeerAcceptedSellQuotes ext (Scid ext rfqID) = Some quote"
  shows "\<exists>amount.
           PaymentBandwidth ext (Some htlcBytes) (Some commitmentBytes) = (amount, None)
           \<and> unat amount
               = (unat (OutputSum (LocalOutputs commitment)) * unat (BidPrice quote)) mod 2 ^ 64
           \<and> (unat (OutputSum (LocalOutputs commitment)) * unat (BidPrice quote) < 2 ^ 64
                \<longrightarrow> unat amount
                      = unat (OutputSum (LocalOutputs commitment)) * unat (BidPrice quote))"
proof -
  let ?amount = "OutputSum (LocalOutputs commitment) * BidPrice quote"
  have "PaymentBandwidth ext (Some htlcBytes) (Some commitmentBytes) = (?amount, None)"
    using assms by (auto simp: PaymentBandwidth_def Let_def)
  moreover have "unat ?amount
      = (unat (OutputSum (LocalOutputs commitment)) * unat (BidPrice quote)) mod 2 ^ 64"
    by (simp add: unat_word_ariths)
  ultimately show ?thesis by auto
qed

text \<open>Scenario B of the spec: a local balance of 500 units, an HTLC with no amount and a
  quote at 2 millisatoshis per unit give 1000.\<close>

theorem PaymentBandwidth_quote_found_witness:
  "DecodeCommitment (example_shaper 2) [0] = Inr \<lparr>LocalOutputs = [(1, 300), (1, 200)]\<rparr>
   \<and> DecodeHtlc (example_shaper 2) [2] = Inr \<lparr>Amounts = [], RfqID = Some 7\<rparr>
   \<and> PeerAcceptedSellQuotes (example_shaper 2) (Scid (example_shaper 2) 7)
       = Some \<lparr>BidPrice = 2, AssetID = Some 1\<rparr>
   \<and> (\<exists>amount. PaymentBandwidth (example_shaper 2) (Some [2]) (Some [0]) = (amount, None)
         \<and> unat amount = 1000)"
proof -
  have c: "DecodeCommitment (example_shaper 2) [0] = Inr \<lparr>LocalOutputs = [(1, 300), (1, 200)]\<rparr>"
    by (simp add: example_defs)
  have h: "DecodeHtlc (example_shaper 2) [2] = Inr \<lparr>Amounts = [], RfqID = Some 7\<rparr>"
    by (simp add: example_defs)
  have q: "PeerAcceptedSellQuotes (example_shaper 2) (Scid (example_shaper 2) 7)
             = Some \<lparr>BidPrice = 2, AssetID = Some 1\<rparr>"
    by (simp add: example_defs)
  have np: "\<not> (Sum_amounts (Amounts \<lparr>Amounts = [], RfqID = Some 7\<rparr>) \<noteq> 0
              \<and> Sum_amounts (Amounts \<lparr>Amounts = [], RfqID = Some 7\<rparr>)
                  \<le> OutputSum (LocalOutputs \<lparr>LocalOutputs = [(1, 300), (1, 200)]\<rparr>))"
    by (simp add: Sum_amounts_def)
  have r: "RfqID \<lparr>Amounts = [], RfqID = Some 7\<rparr> = Some 7"
    by simp
  have b: "unat (OutputSum (LocalOutputs \<lparr>LocalOutputs = [(1, 300), (1, 200)]\<rparr>))
             * unat (BidPrice \<lparr>BidPrice = 2, AssetID = Some 1\<rparr>) = 1000"
    by (simp add: OutputSum_def)
  from PaymentBandwidth_quote_found [OF c h np r q] b c h q show ?thesis
    by simp
qed

text \<open>
  C2, as the spec states it, fails: with a local balance of \<open>2 ^ 32\<close> units and a bid price
  of \<open>2 ^ 32\<close> the product \<open>2 ^ 64\<close> is not a \<^verbatim>\<open>uint64\<close>, and \<open>PaymentBandwidth\<close> returns 0
  with no error.
\<close>

theorem PaymentBandwidth_overflow_wraps:
  "DecodeCommitment (example_shaper 4294967296) [1] = Inr \<lparr>LocalOutputs = [(1, 4294967296)]\<rparr>
   \<and> DecodeHtlc (example_shaper 4294967296) [2] = Inr \<lparr>Amounts = [], RfqID = Some 7\<rparr>
   \<and> PeerAcceptedSellQuotes (example_shaper 4294967296) (Scid (example_shaper 4294967296) 7)
       = Some \<lparr>BidPrice = 4294967296, AssetID = Some 1\<rparr>
   \<and> unat (OutputSum [(1, 4294967296)]) * unat (4294967296 :: 64 word) = 2 ^ 64
   \<and> PaymentBandwidth (example_shaper 4294967296) (Some [2]) (Some [1]) = (0, None)"
  by (simp add: PaymentBandwidth_def example_defs OutputSum_def Sum_amounts_def)

section \<open>Rewriting the HTLC\<close>

text \<open>Without overflow of \<^verbatim>\<open>totalAmount*10\<close> and with a nonzero price, the two divisions of
  line 243 give the plain truncating quotient of the amount by the price.\<close>

lemma numAssetUnits_truncating_division:
  assumes "10 * unat totalAmount < 2 ^ 64" and "mSatPerAssetUnit \<noteq> 0"
  shows "unat (numAssetUnits totalAmount mSatPerAssetUnit)
           = unat totalAmount div unat mSatPerAssetUnit"
proof -
  have m: "unat (totalAmount * 10) = unat totalAmount * 10"
    using assms(1) by (simp add: unat_mult_lem [THEN iffD1] mult.commute)
  have "unat (numAssetUnits totalAmount mSatPerAssetUnit)
          = (unat totalAmount * 10 div unat mSatPerAssetUnit) div 10"
    by (simp add: numAssetUnits_def unat_div m)
  also have "\<dots> = unat totalAmount * 10 div (unat mSatPerAssetUnit * 10)"
    by (simp add: div_mult2_eq)
  also have "\<dots> = unat totalAmount div unat mSatPerAssetUnit"
    by simp
  finally show ?thesis .
qed

lemma numAssetUnits_small_amount:
  assumes "10 * unat totalAmount < unat mSatPerAssetUnit"
  shows "numAssetUnits totalAmount mSatPerAssetUnit = 0"
proof -
  have "unat mSatPerAssetUnit < 2 ^ 64"
    using unsigned_less [of mSatPerAssetUnit] by simp
  with assms have small: "10 * unat totalAmount < 2 ^ 64"
    by linarith
  from assms have nz: "mSatPerAssetUnit \<noteq> 0"
    by (auto simp: unat_gt_0 [symmetric])
  from assms have "unat totalAmount div unat mSatPerAssetUnit = 0"
    by simp
  with numAssetUnits_truncating_division [OF small nz]
  have "unat (numAssetUnits totalAmount mSatPerAssetUnit) = 0"
    by simp
  then show ?thesis
    by (simp add: unat_eq_0)
qed

text \<open>The rewrite path: the records are not empty and serialise, the blob decodes to an
  HTLC with no amount and a quote identifier, and the quote is found with a nonzero price
  and an asset identifier.\<close>

lemma ProduceHtlcExtraData_rewrite:
  assumes "htlcCustomRecords \<noteq> []"
    and "Serialize ext htlcCustomRecords = Inr htlcBlob"
    and "DecodeHtlc ext htlcBlob = Inr htlc"
    and "Sum_amounts (Amounts htlc) = 0"
    and "RfqID htlc = Some rfqID"
    and "PeerAcceptedSellQuotes ext (Scid ext rfqID) = Some quote"
    and "BidPrice quote \<noteq> 0"
    and "AssetID quote = Some assetID"
  shows "ProduceHtlcExtraData ext totalAmount htlcCustomRecords
           = Returns (NewMSatFromSatoshis ext (DefaultOnChainHtlcAmount ext),
                      Some (Bytes ext
                        (htlc\<lparr>Amounts := [(assetID, numAssetUnits totalAmount (BidPrice quote))]\<rparr>)),
                      None)"
  using assms by (simp add: ProduceHtlcExtraData_def)

text \<open>
  C7. With empty custom records \<open>ProduceHtlcExtraData\<close> returns the amount it was given,
  no blob and no error, for every amount and whatever the codecs and the quote table are:
  nothing is serialised, decoded or looked up.
\<close>

theorem ProduceHtlcExtraData_empty_records:
  "ProduceHtlcExtraData ext totalAmount [] = Returns (totalAmount, None, None)"
  by (simp add: ProduceHtlcExtraData_def)

text \<open>
  C8. When the custom records are not empty and their serialised bytes decode to an HTLC
  whose asset amount is not zero, \<open>ProduceHtlcExtraData\<close> returns the amount it was given,
  the serialised bytes as they are and no error. Nothing is assumed about the quote
  identifier or the quote table.
\<close>

theorem ProduceHtlcExtraData_already_priced:
  assumes "htlcCustomRecords \<noteq> []"
    and "Serialize ext htlcCustomRecords = Inr htlcBlob"
    and "DecodeHtlc ext htlcBlob = Inr htlc"
    and "Sum_amounts (Amounts htlc) \<noteq> 0"
  shows "ProduceHtlcExtraData ext totalAmount htlcCustomRecords
           = Returns (totalAmount, Some htlcBlob, None)"
  using assms by (simp add: ProduceHtlcExtraData_def word_greater_zero_iff)

theorem ProduceHtlcExtraData_already_priced_witness:
  "[(65536, [4])] \<noteq> ([] :: CustomRecords)
   \<and> Serialize (example_shaper 100) [(65536, [4])] = Inr [4]
   \<and> DecodeHtlc (example_shaper 100) [4] = Inr \<lparr>Amounts = [(1, 200)], RfqID = Some 8\<rparr>
   \<and> Sum_amounts [(1, 200)] \<noteq> 0
   \<and> ProduceHtlcExtraData (example_shaper 100) 1299 [(65536, [4])]
       = Returns (1299, Some [4], None)"
proof -
  have n: "[(65536, [4])] \<noteq> ([] :: CustomRecords)"
    by simp
  have s: "Serialize (example_shaper 100) [(65536, [4])] = Inr [4]"
    by (simp add: example_defs)
  have h: "DecodeHtlc (example_shaper 100) [4] = Inr \<lparr>Amounts = [(1, 200)], RfqID = Some 8\<rparr>"
    by (simp add: example_defs)
  have nz: "Sum_amounts (Amounts \<lparr>Amounts = [(1, 200)], RfqID = Some 8\<rparr>) \<noteq> 0"
    by (simp add: Sum_amounts_def)
  from ProduceHtlcExtraData_already_priced [OF n s h nz, of 1299] n s h nz show ?thesis
    by simp
qed

text \<open>
  C4. When a quote identifier is present in the decoded HTLC, the already-priced branch does
  not apply and no accepted quote is stored under the channel identifier derived from it,
  \<open>PaymentBandwidth\<close> and \<open>ProduceHtlcExtraData\<close> both return the error
  \<^verbatim>\<open>no accepted quote found\<close> for that identifier. It is an error outcome, different from
  the success with zero bandwidth.
\<close>

theorem quote_not_found_is_an_error:
  "(DecodeCommitment ext commitmentBytes = Inr commitment
      \<and> DecodeHtlc ext htlcBytes = Inr htlc
      \<and> \<not> (Sum_amounts (Amounts htlc) \<noteq> 0
             \<and> Sum_amounts (Amounts htlc) \<le> OutputSum (LocalOutputs commitment))
      \<and> RfqID htlc = Some rfqID
      \<and> PeerAcceptedSellQuotes ext (Scid ext rfqID) = None
    \<longrightarrow> PaymentBandwidth ext (Some htlcBytes) (Some commitmentBytes)
          = (0, Some (NoAcceptedQuote rfqID (Scid ext rfqID)))
        \<and> PaymentBandwidth ext (Some htlcBytes) (Some commitmentBytes) \<noteq> (0, None))
   \<and> (htlcCustomRecords \<noteq> []
      \<and> Serialize ext htlcCustomRecords = Inr htlcBlob
      \<and> DecodeHtlc ext htlcBlob = Inr htlc'
      \<and> Sum_amounts (Amounts htlc') = 0
      \<and> RfqID htlc' = Some rfqID'
      \<and> PeerAcceptedSellQuotes ext (Scid ext rfqID') = None
    \<longrightarrow> ProduceHtlcExtraData ext totalAmount htlcCustomRecords
          = Returns (0, None, Some (NoAcceptedQuote rfqID' (Scid ext rfqID'))))"
  by (auto simp: PaymentBandwidth_def ProduceHtlcExtraData_def Let_def)

text \<open>The HTLC \<open>[3]\<close> has no amount and names the quote 8; the only accepted quote is the
  one of channel identifier 7.\<close>

theorem quote_not_found_is_an_error_witness:
  "DecodeCommitment (example_shaper 2) [0] = Inr \<lparr>LocalOutputs = [(1, 300), (1, 200)]\<rparr>
   \<and> DecodeHtlc (example_shaper 2) [3] = Inr \<lparr>Amounts = [], RfqID = Some 8\<rparr>
   \<and> Serialize (example_shaper 2) [(65536, [3])] = Inr [3]
   \<and> Sum_amounts [] = 0
   \<and> PeerAcceptedSellQuotes (example_shaper 2) (Scid (example_shaper 2) 8) = None
   \<and> PaymentBandwidth (example_shaper 2) (Some [3]) (Some [0])
       = (0, Some (NoAcceptedQuote 8 8))
   \<and> ProduceHtlcExtraData (example_shaper 2) 1299 [(65536, [3])]
       = Returns (0, None, Some (NoAcceptedQuote 8 8))"
proof -
  have c: "DecodeCommitment (example_shaper 2) [0] = Inr \<lparr>LocalOutputs = [(1, 300), (1, 200)]\<rparr>"
    by (simp add: example_defs)
  have h: "DecodeHtlc (example_shaper 2) [3] = Inr \<lparr>Amounts = [], RfqID = Some 8\<rparr>"
    by (simp add: example_defs)
  have s: "Serialize (example_shaper 2) [(65536, [3])] = Inr [3]"
    by (simp add: example_defs)
  have z: "Sum_amounts [] = 0"
    by (simp add: Sum_amounts_def)
  have q: "PeerAcceptedSellQuotes (example_shaper 2) (Scid (example_shaper 2) 8) = None"
    by (simp add: example_defs)
  have k: "Scid (example_shaper 2) 8 = 8"
    by (simp add: example_defs)
  from quote_not_found_is_an_error
         [of "example_shaper 2" "[0]" "\<lparr>LocalOutputs = [(1, 300), (1, 200)]\<rparr>" "[3]"
             "\<lparr>Amounts = [], RfqID = Some 8\<rparr>" 8 "[(65536, [3])]" "[3]"
             "\<lparr>Amounts = [], RfqID = Some 8\<rparr>" 8 1299]
       c h s z q k
  show ?thesis
    by simp
qed

text \<open>
  C9, as the code has it. On the rewrite path (quote found, with a nonzero price and an
  asset identifier) \<open>ProduceHtlcExtraData\<close> succeeds and the amount it returns is the
  dust-floor value \<^verbatim>\<open>NewMSatFromSatoshis(DefaultOnChainHtlcAmount)\<close>, the same for every
  \<open>totalAmount\<close>, so it is never below the dust floor there. Nothing is promised about
  the successes that pass the amount through.
\<close>

theorem ProduceHtlcExtraData_rewrite_amount:
  assumes "htlcCustomRecords \<noteq> []"
    and "Serialize ext htlcCustomRecords = Inr htlcBlob"
    and "DecodeHtlc ext htlcBlob = Inr htlc"
    and "Sum_amounts (Amounts htlc) = 0"
    and "RfqID htlc = Some rfqID"
    and "PeerAcceptedSellQuotes ext (Scid ext rfqID) = Some quote"
    and "BidPrice quote \<noteq> 0"
    and "AssetID quote = Some assetID"
  shows "\<exists>newBlob.
           ProduceHtlcExtraData ext totalAmount htlcCustomRecords
             = Returns (NewMSatFromSatoshis ext (DefaultOnChainHtlcAmount ext),
                        Some newBlob, None)"
  using ProduceHtlcExtraData_rewrite [OF assms] by simp

theorem ProduceHtlcExtraData_rewrite_amount_witness:
  "[(65536, [2])] \<noteq> ([] :: CustomRecords)
   \<and> Serialize (example_shaper 100) [(65536, [2])] = Inr [2]
   \<and> DecodeHtlc (example_shaper 100) [2] = Inr \<lparr>Amounts = [], RfqID = Some 7\<rparr>
   \<and> Sum_amounts [] = 0
   \<and> PeerAcceptedSellQuotes (example_shaper 100) (Scid (example_shaper 100) 7)
       = Some \<lparr>BidPrice = 100, AssetID = Some 1\<rparr>
   \<and> (\<exists>newBlob. ProduceHtlcExtraData (example_shaper 100) 1299 [(65536, [2])]
         = Returns (354000, Some newBlob, None))"
proof -
  have n: "[(65536, [2])] \<noteq> ([] :: CustomRecords)"
    by simp
  have s: "Serialize (example_shaper 100) [(65536, [2])] = Inr [2]"
    by (simp add: example_defs)
  have h: "DecodeHtlc (example_shaper 100) [2] = Inr \<lparr>Amounts = [], RfqID = Some 7\<rparr>"
    by (simp add: example_defs)
  have z: "Sum_amounts (Amounts \<lparr>Amounts = [], RfqID = Some 7\<rparr>) = 0"
    by (simp add: Sum_amounts_def)
  have r: "RfqID \<lparr>Amounts = [], RfqID = Some 7\<rparr> = Some 7"
    by simp
  have q: "PeerAcceptedSellQuotes (example_shaper 100) (Scid (example_shaper 100) 7)
             = Some \<lparr>BidPrice = 100, AssetID = Some 1\<rparr>"
    by (simp add: example_defs)
  have p: "BidPrice \<lparr>BidPrice = 100, AssetID = Some 1\<rparr> \<noteq> 0"
    by simp
  have a: "AssetID \<lparr>BidPrice = 100, AssetID = Some 1\<rparr> = Some 1"
    by simp
  have d: "NewMSatFromSatoshis (example_shaper 100) (DefaultOnChainHtlcAmount (example_shaper 100))
             = 354000"
    by (simp add: example_defs)
  from ProduceHtlcExtraData_rewrite_amount [OF n s h z r q p a, of 1299] d n s h z q
  show ?thesis
    by simp
qed

text \<open>
  C9, as the spec states it, fails on a success that passes the amount through: with empty
  custom records and an amount of 1 millisatoshi the call succeeds and returns 1, below the
  dust floor of 354000 millisatoshis.
\<close>

theorem ProduceHtlcExtraData_below_dust_floor:
  "ProduceHtlcExtraData (example_shaper 100) 1 [] = Returns (1, None, None)
   \<and> NewMSatFromSatoshis (example_shaper 100) (DefaultOnChainHtlcAmount (example_shaper 100))
       = 354000
   \<and> \<not> ((354000 :: 64 word) \<le> 1)"
  by (simp add: ProduceHtlcExtraData_def example_defs word_le_nat_alt)

text \<open>
  C10. On the rewrite path, when the bid price exceeds ten times \<open>totalAmount\<close>, the
  number of units is 0 and \<open>ProduceHtlcExtraData\<close> still succeeds: it returns the dust-floor
  amount, the HTLC re-encoded with the single entry \<open>(assetID, 0)\<close> and no error.
\<close>

theorem ProduceHtlcExtraData_zero_units:
  assumes "htlcCustomRecords \<noteq> []"
    and "Serialize ext htlcCustomRecords = Inr htlcBlob"
    and "DecodeHtlc ext htlcBlob = Inr htlc"
    and "Sum_amounts (Amounts htlc) = 0"
    and "RfqID htlc = Some rfqID"
    and "PeerAcceptedSellQuotes ext (Scid ext rfqID) = Some quote"
    and "AssetID quote = Some assetID"
    and "10 * unat totalAmount < unat (BidPrice quote)"
  shows "ProduceHtlcExtraData ext totalAmount htlcCustomRecords
           = Returns (NewMSatFromSatoshis ext (DefaultOnChainHtlcAmount ext),
                      Some (Bytes ext (htlc\<lparr>Amounts := [(assetID, 0)]\<rparr>)),
                      None)"
proof -
  from assms(8) have nz: "BidPrice quote \<noteq> 0"
    by (auto simp: unat_gt_0 [symmetric])
  from assms(8) have "numAssetUnits totalAmount (BidPrice quote) = 0"
    by (rule numAssetUnits_small_amount)
  with ProduceHtlcExtraData_rewrite [OF assms(1-6) nz assms(7), of totalAmount]
  show ?thesis
    by simp
qed

theorem ProduceHtlcExtraData_zero_units_witness:
  "[(65536, [2])] \<noteq> ([] :: CustomRecords)
   \<and> Serialize (example_shaper 100) [(65536, [2])] = Inr [2]
   \<and> DecodeHtlc (example_shaper 100) [2] = Inr \<lparr>Amounts = [], RfqID = Some 7\<rparr>
   \<and> Sum_amounts [] = 0
   \<and> PeerAcceptedSellQuotes (example_shaper 100) (Scid (example_shaper 100) 7)
       = Some \<lparr>BidPrice = 100, AssetID = Some 1\<rparr>
   \<and> 10 * unat (5 :: 64 word) < unat (100 :: 64 word)
   \<and> ProduceHtlcExtraData (example_shaper 100) 5 [(65536, [2])]
       = Returns (354000,
                  Some (Bytes (example_shaper 100) \<lparr>Amounts = [(1, 0)], RfqID = Some 7\<rparr>),
                  None)"
proof -
  have n: "[(65536, [2])] \<noteq> ([] :: CustomRecords)"
    by simp
  have s: "Serialize (example_shaper 100) [(65536, [2])] = Inr [2]"
    by (simp add: example_defs)
  have h: "DecodeHtlc (example_shaper 100) [2] = Inr \<lparr>Amounts = [], RfqID = Some 7\<rparr>"
    by (simp add: example_defs)
  have z: "Sum_amounts (Amounts \<lparr>Amounts = [], RfqID = Some 7\<rparr>) = 0"
    by (simp add: Sum_amounts_def)
  have r: "RfqID \<lparr>Amounts = [], RfqID = Some 7\<rparr> = Some 7"
    by simp
  have q: "PeerAcceptedSellQuotes (example_shaper 100) (Scid (example_shaper 100) 7)
             = Some \<lparr>BidPrice = 100, AssetID = Some 1\<rparr>"
    by (simp add: example_defs)
  have a: "AssetID \<lparr>BidPrice = 100, AssetID = Some 1\<rparr> = Some 1"
    by simp
  have b: "10 * unat (5 :: 64 word) < unat (BidPrice \<lparr>BidPrice = 100, AssetID = Some 1\<rparr>)"
    by simp
  have d: "NewMSatFromSatoshis (example_shaper 100) (DefaultOnChainHtlcAmount (example_shaper 100))
             = 354000"
    by (simp add: example_defs)
  from ProduceHtlcExtraData_zero_units [OF n s h z r q a b] d n s h z q b
  show ?thesis
    by simp
qed

text \<open>
  C1. The claim is that the number of units written into the HTLC is the quotient rounded
  to the nearest tenth and then truncated, and not the plain truncating division. The
  code does not do that: for a price of 100 and an amount of 1299 it writes 12 units, the
  truncated quotient, where the quotient 12.99 rounded to the nearest tenth is 13.0. The
  example of the claim, 12345 at a price of 1000, gives 12 under both readings.
\<close>

theorem ProduceHtlcExtraData_units_are_truncated:
  "ProduceHtlcExtraData (example_shaper 100) 1299 [(65536, [2])]
     = Returns (354000,
                Some (Bytes (example_shaper 100) \<lparr>Amounts = [(1, 12)], RfqID = Some 7\<rparr>),
                None)
   \<and> numAssetUnits 1299 100 = 12
   \<and> (1299 :: nat) div 100 = 12
   \<and> spec_numUnits 1299 100 = 13
   \<and> numAssetUnits 12345 1000 = 12
   \<and> spec_numUnits 12345 1000 = 12"
  by (simp add: ProduceHtlcExtraData_def example_defs Sum_amounts_def numAssetUnits_def
      spec_numUnits_def)

end
